theory Spec2Isabelle
  imports Main
begin

section \<open>Values delivered to the page\<close>

text \<open>
  The payloads that reach \<open>web/app.js\<close> (the token response and the events of the
  call) are decoded JSON, plus \<open>undefined\<close> for a handler called without an argument
  and for a property that is not there. A number is an integer, which is what the counter
  events carry: \<open>JNum n\<close> stands for the safe integer \<open>n\<close> (below \<open>2^53\<close> in
  magnitude), which prints in decimal; fractions and larger numbers are not values of this
  model. An object is its list of properties, looked up by key.
\<close>

datatype jv =
    JUndefined
  | JNull
  | JBool bool
  | JNum int
  | JStr string
  | JArr "jv list"
  | JObj "(string \<times> jv) list"

text \<open>JavaScript truthiness: what \<open>if (v)\<close>, \<open>!v\<close>, \<open>a && b\<close> and \<open>a || b\<close> test.\<close>

fun truthy :: "jv \<Rightarrow> bool" where
  "truthy JUndefined = False"
| "truthy JNull = False"
| "truthy (JBool b) = b"
| "truthy (JNum n) = (n \<noteq> 0)"
| "truthy (JStr s) = (s \<noteq> [])"
| "truthy (JArr xs) = True"
| "truthy (JObj kvs) = True"

text \<open>
  Property read \<open>v.k\<close> for the keys the page reads (\<open>params\<close>, \<open>event\<close>, \<open>type\<close>,
  \<open>name\<close>, \<open>message\<close>, \<open>count\<close>, \<open>increment\<close>, \<open>error\<close>, \<open>token\<close>, \<open>address\<close>,
  \<open>event_type\<close>): an object yields the property or \<open>undefined\<close>; a boolean, number,
  string or array has none of these keys. On \<open>null\<close> and \<open>undefined\<close> the read throws
  a TypeError, so every caller below tests \<open>nullish\<close> or truthiness first, as the source
  does.
\<close>

fun get_prop :: "jv \<Rightarrow> string \<Rightarrow> jv" where
  "get_prop (JObj kvs) k = (case map_of kvs k of None \<Rightarrow> JUndefined | Some v \<Rightarrow> v)"
| "get_prop v k = JUndefined"

fun nullish :: "jv \<Rightarrow> bool" where
  "nullish JUndefined = True"
| "nullish JNull = True"
| "nullish v = False"

text \<open>\<open>a || b\<close> on values.\<close>

definition js_or :: "jv \<Rightarrow> jv \<Rightarrow> jv" where
  "js_or a b = (if truthy a then a else b)"

text \<open>
  String conversion, as a template literal \<open>`${v}`\<close>, the \<open>Error\<close> constructor and
  the \<open>textContent\<close> setter perform it. The conversion throws a TypeError on an object
  that has a \<open>toString\<close> property of its own (a decoded JSON value is never callable, and
  the inherited \<open>valueOf\<close> returns the object itself), and on an array with such an
  element: \<open>printable\<close> says that it does not throw, and \<open>toStr\<close> is the result then.
\<close>

fun printable :: "jv \<Rightarrow> bool" where
  "printable (JArr xs) = (\<forall>x \<in> set xs. printable x)"
| "printable (JObj kvs) = (''toString'' \<notin> set (map fst kvs))"
| "printable v = True"

definition digit_char :: "nat \<Rightarrow> char" where
  "digit_char d = ''0123456789'' ! d"

fun nat_digits :: "nat \<Rightarrow> string" where
  "nat_digits n =
     (if n < 10 then [digit_char n] else nat_digits (n div 10) @ [digit_char (n mod 10)])"

definition int_to_string :: "int \<Rightarrow> string" where
  "int_to_string i = (if i < 0 then ''-'' @ nat_digits (nat (- i)) else nat_digits (nat i))"

fun join_comma :: "string list \<Rightarrow> string" where
  "join_comma [] = []"
| "join_comma [s] = s"
| "join_comma (s # t # ss) = s @ '','' @ join_comma (t # ss)"

fun toStr :: "jv \<Rightarrow> string" where
  "toStr JUndefined = ''undefined''"
| "toStr JNull = ''null''"
| "toStr (JBool b) = (if b then ''true'' else ''false'')"
| "toStr (JNum n) = int_to_string n"
| "toStr (JStr s) = s"
| "toStr (JArr xs) = join_comma (map (\<lambda>x. if nullish x then [] else toStr x) xs)"
| "toStr (JObj kvs) = ''[object Object]''"

section \<open>Event normalisation (\<open>handleUserEvent\<close>, first half)\<close>

text \<open>
  The classified event: what each branch of the \<open>switch\<close> in \<open>handleUserEvent\<close> binds
  before it touches the page. \<open>Greeting\<close> carries \<open>name\<close>, \<open>Echo\<close> carries
  \<open>message\<close>, \<open>CounterUpdated\<close> carries \<open>count\<close> and \<open>increment\<close>, \<open>Unknown\<close> carries
  \<open>eventType\<close>. The fields are JavaScript values: the source does not convert them
  before the template literals do.
\<close>

datatype app_event =
    Greeting jv
  | Echo jv
  | CounterUpdated jv jv
  | Unknown string

text \<open>
  Lines 265-273: \<open>eventData\<close> starts as \<open>params\<close>; two independent \<open>if\<close>s then
  overwrite it, first with \<open>params.params\<close>, then with \<open>params.event\<close>.
\<close>

definition unwrap :: "jv \<Rightarrow> jv" where
  "unwrap params =
     (let eventData = params;
          eventData = (if truthy params \<and> truthy (get_prop params ''params'')
                       then get_prop params ''params'' else eventData);
          eventData = (if truthy params \<and> truthy (get_prop params ''event'')
                       then get_prop params ''event'' else eventData)
      in eventData)"

definition internalTypes :: "string list" where
  "internalTypes = [''room.joined'', ''room.left'', ''member.joined'', ''member.left'',
                    ''playback.started'', ''playback.ended'']"

text \<open>
  Lines 277-326 without the effects: the two early returns give \<open>None\<close>, the
  \<open>switch\<close> gives the classified event.
\<close>

definition normalize_event :: "jv \<Rightarrow> app_event option" where
  "normalize_event params =
     (let eventData = unwrap params in
      if \<not> truthy eventData then None
      else case get_prop eventData ''type'' of
        JStr eventType \<Rightarrow>
          if eventType \<in> set internalTypes then None
          else if eventType = ''greeting'' then
            Some (Greeting (js_or (get_prop eventData ''name'') (JStr ''Unknown'')))
          else if eventType = ''echo'' then
            Some (Echo (js_or (get_prop eventData ''message'') (JStr '''')))
          else if eventType = ''counter_updated'' then
            Some (CounterUpdated (js_or (get_prop eventData ''count'') (JNum 0))
                                 (js_or (get_prop eventData ''increment'') (JNum 1)))
          else Some (Unknown eventType)
      | _ \<Rightarrow> None)"

section \<open>The page and the event log\<close>

text \<open>
  One entry of the log element: the \<open>div\<close> that \<open>logEvent\<close> creates, with its class
  and its inner HTML.
\<close>

record log_entry =
  className :: string
  innerHTML :: string

text \<open>
  The \<open>while\<close> loop of \<open>logEvent\<close> (lines 375-377): remove the first child as long as
  there are more than 50 children.
\<close>

function keep_last_50 :: "log_entry list \<Rightarrow> log_entry list" where
  "keep_last_50 children = (if length children > 50 then keep_last_50 (tl children) else children)"
  by pat_completeness auto
termination
  by (relation "measure length") auto

declare keep_last_50.simps [simp del]

text \<open>The three value displays that events update.\<close>

datatype display = GreetingEl | EchoEl | CounterEl

text \<open>
  Calls into the external collaborators, in the order they are made: the token
  endpoint, the SignalWire factory (with the token), \<open>client.on\<close> (with the channel),
  \<open>client.dial\<close> (with the destination), \<open>roomSession.on\<close> (with the channel),
  \<open>roomSession.start\<close> and \<open>roomSession.hangup\<close>.
\<close>

datatype ext_call =
    Fetch
  | SignalWireInit jv
  | ClientOn string
  | Dial jv
  | SessionOn string
  | Start
  | Hangup

text \<open>
  The globals of \<open>web/app.js\<close> and the parts of the page it writes. \<open>client\<close> and
  \<open>roomSession\<close> are handles (\<open>None\<close> is \<open>null\<close>). \<open>placeholder\<close> is the
  \<open>.placeholder\<close> element of the video container: \<open>None\<close> when the container has none,
  \<open>Some hidden\<close> otherwise. \<open>clock\<close> is the wall clock as \<open>toLocaleTimeString\<close> renders it at the
  n-th reading, \<open>clock_reads\<close> the number of readings so far. \<open>calls\<close> records the calls
  made to the outside.
\<close>

record world =
  client :: "nat option"
  roomSession :: "nat option"
  currentToken :: jv
  currentDestination :: jv
  isConnected :: bool
  status_className :: string
  status_text :: string
  connectBtn_disabled :: bool
  disconnectBtn_disabled :: bool
  placeholder :: "bool option"
  lastGreeting_text :: string
  lastGreeting_highlight :: bool
  lastEcho_text :: string
  lastEcho_highlight :: bool
  counterValue_text :: string
  counterValue_highlight :: bool
  eventLog :: "log_entry list"
  clock :: "nat \<Rightarrow> string"
  clock_reads :: nat
  calls :: "ext_call list"

definition dq :: string where
  "dq = [CHR 0x22]"

definition make_entry :: "string \<Rightarrow> string \<Rightarrow> string \<Rightarrow> log_entry" where
  "make_entry timestamp type message =
     \<lparr>className = ''log-entry '' @ type,
      innerHTML = ''<span class='' @ dq @ ''log-time'' @ dq @ ''>'' @ timestamp @ ''</span> '' @ message\<rparr>"

text \<open>\<open>logEvent(type, message)\<close>, lines 362-378.\<close>

definition logEvent :: "string \<Rightarrow> string \<Rightarrow> world \<Rightarrow> world" where
  "logEvent type message w =
     (let timestamp = clock w (clock_reads w);
          entry = make_entry timestamp type message
      in w\<lparr>eventLog := keep_last_50 (eventLog w @ [entry]),
            clock_reads := Suc (clock_reads w)\<rparr>)"

text \<open>\<open>updateStatus(state, text)\<close>, lines 341-344.\<close>

definition updateStatus :: "string \<Rightarrow> string \<Rightarrow> world \<Rightarrow> world" where
  "updateStatus state text w =
     w\<lparr>status_className := ''status '' @ state, status_text := text\<rparr>"

text \<open>\<open>updateButtons()\<close>, lines 350-353.\<close>

definition updateButtons :: "world \<Rightarrow> world" where
  "updateButtons w =
     w\<lparr>connectBtn_disabled := isConnected w, disconnectBtn_disabled := (\<not> isConnected w)\<rparr>"

text \<open>
  \<open>handleDisconnect()\<close>, lines 229-238. Writing the container's inner HTML leaves it
  with a fresh, visible placeholder.
\<close>

definition handleDisconnect :: "world \<Rightarrow> world" where
  "handleDisconnect w =
     updateButtons
       (updateStatus ''disconnected'' ''Disconnected''
          (w\<lparr>isConnected := False, roomSession := None, placeholder := Some False\<rparr>))"

section \<open>Event handling (\<open>handleUserEvent\<close>, second half)\<close>

text \<open>
  The body of each \<open>case\<close> of the \<open>switch\<close>, lines 294-327. The highlight class is
  added here; the timer that removes it later is the notification \<open>OnTimeout\<close> below.
  A value that cannot be converted to a string makes the statement that converts it throw:
  the handler ends there, with what the earlier statements wrote.
\<close>

fun reflect :: "app_event \<Rightarrow> world \<Rightarrow> world" where
  "reflect (Greeting name) w =
     (if \<not> printable name then w
      else
        logEvent ''greeting'' (''Greeted: '' @ toStr name)
          (w\<lparr>lastGreeting_text := ''Hello, '' @ toStr name @ ''!'',
             lastGreeting_highlight := True\<rparr>))"
| "reflect (Echo msg) w =
     (if \<not> printable msg then w
      else
        logEvent ''echo'' (''Echoed: '' @ toStr msg)
          (w\<lparr>lastEcho_text := dq @ toStr msg @ dq,
             lastEcho_highlight := True\<rparr>))"
| "reflect (CounterUpdated count increment) w =
     (if \<not> printable count then w
      else
        (let w = w\<lparr>counterValue_text := toStr count, counterValue_highlight := True\<rparr>
         in if \<not> printable increment then w
            else logEvent ''counter''
                   (''Counter: '' @ toStr count @ '' (+'' @ toStr increment @ '')'') w))"
| "reflect (Unknown eventType) w =
     logEvent ''unknown'' (''Unknown event: '' @ eventType) w"

text \<open>\<open>handleUserEvent(params)\<close>, lines 258-328: an early return leaves the page as it is.\<close>

definition handleUserEvent :: "jv \<Rightarrow> world \<Rightarrow> world" where
  "handleUserEvent params w =
     (case normalize_event params of None \<Rightarrow> w | Some ev \<Rightarrow> reflect ev w)"

section \<open>What arrives while a call is suspended\<close>

text \<open>
  The callbacks the page registers. \<open>OnUserEvent\<close> is the handler of \<open>user_event\<close>
  and \<open>calling.user_event\<close> on the client and of \<open>user_event\<close> on the room session
  (lines 108-117 and 157-160), \<open>OnSignalwireEvent\<close> the one of \<open>signalwire.event\<close>
  (lines 120-125), then \<open>room.joined\<close>, \<open>room.left\<close> and \<open>destroy\<close> (lines 163-184), and
  the timer callbacks that remove a highlight.
\<close>

datatype notification =
    OnUserEvent jv
  | OnSignalwireEvent jv
  | OnRoomJoined
  | OnRoomLeft
  | OnDestroy
  | OnTimeout display

definition room_joined :: "world \<Rightarrow> world" where
  "room_joined w =
     (let w = logEvent ''system'' ''Connected to agent'' w;
          w = updateStatus ''connected'' ''Connected'' w;
          w = w\<lparr>isConnected := True\<rparr>;
          w = updateButtons w
      in case placeholder w of
           None \<Rightarrow> w
         | Some hidden \<Rightarrow> w\<lparr>placeholder := Some True\<rparr>)"

fun clear_highlight :: "display \<Rightarrow> world \<Rightarrow> world" where
  "clear_highlight GreetingEl w = w\<lparr>lastGreeting_highlight := False\<rparr>"
| "clear_highlight EchoEl w = w\<lparr>lastEcho_highlight := False\<rparr>"
| "clear_highlight CounterEl w = w\<lparr>counterValue_highlight := False\<rparr>"

text \<open>
  One callback, run to completion. The \<open>signalwire.event\<close> handler reads
  \<open>params.event_type\<close> unguarded: on \<open>null\<close> or \<open>undefined\<close> it throws before it
  changes anything.
\<close>

fun dispatch :: "notification \<Rightarrow> world \<Rightarrow> world" where
  "dispatch (OnUserEvent params) w = handleUserEvent params w"
| "dispatch (OnSignalwireEvent params) w =
     (if nullish params then w
      else if get_prop params ''event_type'' = JStr ''user_event''
           then handleUserEvent (js_or (get_prop params ''params'') params) w
           else w)"
| "dispatch OnRoomJoined w = room_joined w"
| "dispatch OnRoomLeft w = handleDisconnect (logEvent ''system'' ''Disconnected from agent'' w)"
| "dispatch OnDestroy w = handleDisconnect (logEvent ''system'' ''Session destroyed'' w)"
| "dispatch (OnTimeout el) w = clear_highlight el w"

section \<open>Connecting and disconnecting\<close>

text \<open>
  A thrown or rejected value: an \<open>Error\<close> object with its \<open>message\<close>, or any other
  value (a promise can be rejected with anything, \<open>null\<close> and \<open>undefined\<close> included).
\<close>

datatype js_error = JsError string | Rejected jv

text \<open>
  \<open>`${error.message}`\<close> in the \<open>catch\<close> block of \<open>connect\<close> (line 195): the text,
  or \<open>None\<close> when evaluating it throws, which reading \<open>message\<close> of \<open>null\<close> or
  \<open>undefined\<close> does and converting an unprintable \<open>message\<close> does.
\<close>

fun error_message :: "js_error \<Rightarrow> string option" where
  "error_message (JsError m) = Some m"
| "error_message (Rejected v) =
     (if nullish v then None
      else if printable (get_prop v ''message'') then Some (toStr (get_prop v ''message''))
      else None)"

text \<open>
  The outside world during one run of \<open>connect\<close> or \<open>disconnect\<close>: how each external
  call ends (\<open>Inl\<close> and \<open>Some\<close> are a rejection or a throw), and which callbacks run
  while each \<open>await\<close> is suspended. \<open>fetch_result\<close> is the outcome of \<open>fetch\<close>
  followed by \<open>json()\<close>; \<open>type_error_text\<close> is the engine's message for reading a
  property of \<open>null\<close> or \<open>undefined\<close>, \<open>conversion_error_text\<close> its message for
  a value that cannot be converted to a string.
\<close>

record env =
  fetch_result :: "js_error + jv"
  signalwire_result :: "js_error + nat"
  client_on_result :: "string \<Rightarrow> js_error option"
  dial_result :: "js_error + nat"
  session_on_result :: "string \<Rightarrow> js_error option"
  start_result :: "js_error option"
  hangup_result :: "js_error option"
  type_error_text :: string
  conversion_error_text :: string
  during_fetch :: "notification list"
  during_init :: "notification list"
  during_dial :: "notification list"
  during_start :: "notification list"
  during_hangup :: "notification list"

definition called :: "ext_call \<Rightarrow> world \<Rightarrow> world" where
  "called c w = w\<lparr>calls := calls w @ [c]\<rparr>"

definition deliver :: "notification list \<Rightarrow> world \<Rightarrow> world" where
  "deliver ns w = fold dispatch ns w"

text \<open>
  A step of the \<open>try\<close> body returns the error it threw, if any, with the state at that
  point; \<open>and_then\<close> runs the next step only after a step that did not throw.
\<close>

definition and_then ::
  "js_error option \<times> world \<Rightarrow> (world \<Rightarrow> js_error option \<times> world) \<Rightarrow> js_error option \<times> world" where
  "and_then r f = (case r of (None, w) \<Rightarrow> f w | (Some e, w) \<Rightarrow> (Some e, w))"

text \<open>Step 1, lines 79-90.\<close>

definition fetch_token :: "env \<Rightarrow> world \<Rightarrow> js_error option \<times> world" where
  "fetch_token env w =
     (let w = deliver (during_fetch env) (called Fetch w) in
      case fetch_result env of
        Inl e \<Rightarrow> (Some e, w)
      | Inr tokenData \<Rightarrow>
          if nullish tokenData then (Some (JsError (type_error_text env)), w)
          else if truthy (get_prop tokenData ''error'')
          then
            (if printable (get_prop tokenData ''error'')
             then (Some (JsError (toStr (get_prop tokenData ''error''))), w)
             else (Some (JsError (conversion_error_text env)), w))
          else
            (let w = w\<lparr>currentToken := get_prop tokenData ''token''\<rparr>;
                 w = w\<lparr>currentDestination := get_prop tokenData ''address''\<rparr>
             in if \<not> printable (currentDestination w)
                then (Some (JsError (conversion_error_text env)), w)
                else
                  (let w = logEvent ''system''
                             (''Token received, destination: '' @ toStr (currentDestination w)) w;
                       w = updateStatus ''connecting'' ''Initializing client...'' w
                   in (None, w))))"

text \<open>Step 2, lines 95-100.\<close>

definition init_client :: "env \<Rightarrow> world \<Rightarrow> js_error option \<times> world" where
  "init_client env w =
     (let w = deliver (during_init env) (called (SignalWireInit (currentToken w)) w) in
      case signalwire_result env of
        Inl e \<Rightarrow> (Some e, w)
      | Inr c \<Rightarrow> (None, logEvent ''system'' ''Client initialized'' (w\<lparr>client := Some c\<rparr>)))"

text \<open>Registering listeners one after the other; the first \<open>on\<close> that throws ends it.\<close>

fun subscribe ::
  "(string \<Rightarrow> ext_call) \<Rightarrow> (string \<Rightarrow> js_error option) \<Rightarrow> string list \<Rightarrow> world
     \<Rightarrow> js_error option \<times> world" where
  "subscribe mk res [] w = (None, w)"
| "subscribe mk res (ch # chs) w =
     (let w = called (mk ch) w in
      case res ch of Some e \<Rightarrow> (Some e, w) | None \<Rightarrow> subscribe mk res chs w)"

text \<open>Step 3, lines 108-127.\<close>

definition client_listeners :: "env \<Rightarrow> world \<Rightarrow> js_error option \<times> world" where
  "client_listeners env w =
     and_then
       (subscribe ClientOn (client_on_result env)
          [''user_event'', ''calling.user_event'', ''signalwire.event''] w)
       (\<lambda>w. (None, updateStatus ''connecting'' ''Dialing agent...'' w))"

text \<open>Step 4, lines 132-150.\<close>

definition dial_agent :: "env \<Rightarrow> world \<Rightarrow> js_error option \<times> world" where
  "dial_agent env w =
     (let w = deliver (during_dial env) (called (Dial (currentDestination w)) w) in
      case dial_result env of
        Inl e \<Rightarrow> (Some e, w)
      | Inr s \<Rightarrow>
          (None, logEvent ''system'' ''Call initiated, waiting for connection...''
                   (w\<lparr>roomSession := Some s\<rparr>)))"

text \<open>Step 5, lines 157-184.\<close>

definition session_listeners :: "env \<Rightarrow> world \<Rightarrow> js_error option \<times> world" where
  "session_listeners env w =
     subscribe SessionOn (session_on_result env)
       [''user_event'', ''room.joined'', ''room.left'', ''destroy''] w"

text \<open>Step 6, lines 189-191.\<close>

definition start_call :: "env \<Rightarrow> world \<Rightarrow> js_error option \<times> world" where
  "start_call env w =
     (let w = deliver (during_start env) (called Start w) in
      case start_result env of
        Some e \<Rightarrow> (Some e, w)
      | None \<Rightarrow> (None, logEvent ''system'' ''Call started successfully'' w))"

text \<open>The \<open>try\<close> body of \<open>connect\<close>, lines 74-191.\<close>

definition connect_try :: "env \<Rightarrow> world \<Rightarrow> js_error option \<times> world" where
  "connect_try env w =
     and_then (and_then (and_then (and_then (and_then
       (fetch_token env w)
       (init_client env))
       (client_listeners env))
       (dial_agent env))
       (session_listeners env))
       (start_call env)"

text \<open>The pages after each statement of a list, run in order.\<close>

fun states_after :: "(world \<Rightarrow> world) list \<Rightarrow> world \<Rightarrow> world list" where
  "states_after [] w = []"
| "states_after (f # fs) w = f w # states_after fs (f w)"

text \<open>
  The \<open>catch\<close> block of \<open>connect\<close>, lines 193-198: the pages after each of its three
  statements. When evaluating the log message throws, the block ends before its first
  statement has changed anything, and the error leaves \<open>connect\<close>.
\<close>

definition connect_catch_states :: "js_error \<Rightarrow> world \<Rightarrow> world list" where
  "connect_catch_states error w =
     (case error_message error of
        None \<Rightarrow> []
      | Some m \<Rightarrow>
          states_after
            [logEvent ''error'' (''Connection failed: '' @ m),
             updateStatus ''error'' ''Connection failed'',
             handleDisconnect] w)"

definition connect_catch :: "js_error \<Rightarrow> world \<Rightarrow> world" where
  "connect_catch error w = last (w # connect_catch_states error w)"

text \<open>Lines 71-72 of \<open>connect\<close>: the page on which the \<open>try\<close> body starts.\<close>

definition connect_begin :: "world \<Rightarrow> world" where
  "connect_begin w =
     (let w = updateStatus ''connecting'' ''Getting token...'' w;
          w = logEvent ''system'' ''Fetching authentication token...'' w
      in w)"

text \<open>
  \<open>connect()\<close>, lines 65-199: the page when \<open>connect\<close> is over, whether it returns or
  the \<open>catch\<close> block throws.
\<close>

definition connect :: "env \<Rightarrow> world \<Rightarrow> world" where
  "connect env w =
     (if isConnected w then logEvent ''system'' ''Already connected'' w
      else
        (case connect_try env (connect_begin w) of
           (None, w) \<Rightarrow> w
         | (Some error, w) \<Rightarrow> connect_catch error w))"

text \<open>
  Lines 211-212 of \<open>disconnect\<close>: the page as it stands while \<open>hangup\<close> is awaited.
\<close>

definition disconnecting :: "world \<Rightarrow> world" where
  "disconnecting w =
     (let w = logEvent ''system'' ''Disconnecting...'' w;
          w = updateStatus ''disconnecting'' ''Disconnecting...'' w
      in w)"

text \<open>The \<open>try\<close> body of \<open>disconnect\<close>, lines 214-217.\<close>

definition hangup_try :: "env \<Rightarrow> world \<Rightarrow> js_error option \<times> world" where
  "hangup_try env w =
     (if roomSession w \<noteq> None
      then (hangup_result env, deliver (during_hangup env) (called Hangup w))
      else (None, w))"

text \<open>
  \<open>disconnect()\<close>, lines 205-223. The \<open>catch\<close> block only writes to the console, so
  the error of \<open>hangup\<close> is dropped.
\<close>

definition disconnect :: "env \<Rightarrow> world \<Rightarrow> world" where
  "disconnect env w =
     (if \<not> isConnected w \<and> roomSession w = None then logEvent ''system'' ''Not connected'' w
      else
        (let w = disconnecting w
         in case hangup_try env w of
              (None, w) \<Rightarrow> handleDisconnect w
            | (Some error, w) \<Rightarrow> handleDisconnect w))"

section \<open>Notions used in the results\<close>

text \<open>The first error in a list of outcomes, in order.\<close>

fun first_some :: "js_error option list \<Rightarrow> js_error option" where
  "first_some [] = None"
| "first_some (None # rest) = first_some rest"
| "first_some (Some e # rest) = Some e"

text \<open>
  What step 1 throws, from the outcome of the token request alone: the rejection of the
  request, a TypeError for a response that is \<open>null\<close> or \<open>undefined\<close>, an \<open>Error\<close> with
  the text of a truthy \<open>error\<close> field (a TypeError when that has no text), and a TypeError
  for an address that has no text. A falsy \<open>error\<close> field is no failure.
\<close>

definition token_failure :: "env \<Rightarrow> js_error option" where
  "token_failure env =
     (case fetch_result env of
        Inl e \<Rightarrow> Some e
      | Inr tokenData \<Rightarrow>
          if nullish tokenData then Some (JsError (type_error_text env))
          else if truthy (get_prop tokenData ''error'')
          then
            (if printable (get_prop tokenData ''error'')
             then Some (JsError (toStr (get_prop tokenData ''error'')))
             else Some (JsError (conversion_error_text env)))
          else if \<not> printable (get_prop tokenData ''address'')
          then Some (JsError (conversion_error_text env))
          else None)"

definition init_failure :: "env \<Rightarrow> js_error option" where
  "init_failure env = (case signalwire_result env of Inl e \<Rightarrow> Some e | Inr c \<Rightarrow> None)"

definition client_listeners_failure :: "env \<Rightarrow> js_error option" where
  "client_listeners_failure env =
     first_some
       (map (client_on_result env) [''user_event'', ''calling.user_event'', ''signalwire.event''])"

definition dial_failure :: "env \<Rightarrow> js_error option" where
  "dial_failure env = (case dial_result env of Inl e \<Rightarrow> Some e | Inr s \<Rightarrow> None)"

definition session_listeners_failure :: "env \<Rightarrow> js_error option" where
  "session_listeners_failure env =
     first_some
       (map (session_on_result env) [''user_event'', ''room.joined'', ''room.left'', ''destroy''])"

text \<open>The failure raised by the first of the six steps of \<open>connect\<close> that fails, if any.\<close>

definition first_failure :: "env \<Rightarrow> js_error option" where
  "first_failure env =
     first_some
       [token_failure env, init_failure env, client_listeners_failure env,
        dial_failure env, session_listeners_failure env, start_result env]"

text \<open>
  The connection state as the page holds it: the state shown in the status element, the
  \<open>isConnected\<close> flag and the session handle.
\<close>

definition connection_state :: "world \<Rightarrow> string \<times> bool \<times> nat option" where
  "connection_state w = (status_className w, isConnected w, roomSession w)"

text \<open>
  The buttons reflect the flag: connect is enabled exactly when \<open>isConnected\<close> is false,
  disconnect exactly when it is true.
\<close>

definition buttons_reflect :: "world \<Rightarrow> bool" where
  "buttons_reflect w =
     ((\<not> connectBtn_disabled w) = (\<not> isConnected w) \<and>
      (\<not> disconnectBtn_disabled w) = isConnected w)"

text \<open>
  From \<open>w\<close> to \<open>w'\<close> the buttons have followed the flag: either they reflect it in
  \<open>w'\<close>, or neither the flag nor the buttons were touched.
\<close>

definition buttons_follow :: "world \<Rightarrow> world \<Rightarrow> bool" where
  "buttons_follow w w' =
     (buttons_reflect w' \<or>
      (isConnected w' = isConnected w \<and>
       connectBtn_disabled w' = connectBtn_disabled w \<and>
       disconnectBtn_disabled w' = disconnectBtn_disabled w))"

text \<open>
  A sequence of \<open>logEvent\<close> calls, and the entries they create when the clock is read
  for the n-th time at the first of them.
\<close>

fun log_all :: "(string \<times> string) list \<Rightarrow> world \<Rightarrow> world" where
  "log_all [] w = w"
| "log_all ((kind, msg) # rest) w = log_all rest (logEvent kind msg w)"

fun entries :: "(nat \<Rightarrow> string) \<Rightarrow> nat \<Rightarrow> (string \<times> string) list \<Rightarrow> log_entry list" where
  "entries clk n [] = []"
| "entries clk n ((kind, msg) # rest) = make_entry (clk n) kind msg # entries clk (Suc n) rest"

section \<open>Inputs used in examples\<close>

text \<open>An event that carries both wrappers, with different payloads.\<close>

definition both_wrapped :: jv where
  "both_wrapped =
     JObj [(''params'', JObj [(''type'', JStr ''greeting''), (''name'', JStr ''Ana'')]),
           (''event'', JObj [(''type'', JStr ''echo''), (''message'', JStr ''hi'')])]"

text \<open>
  The page after the script has set its globals (lines 24-34) and before anything is
  logged. The markup is not part of the source; the example takes a status of
  \<open>ready\<close>, an enabled connect button, a disabled disconnect button and a visible
  placeholder, with a clock that stands still.
\<close>

definition fresh_page :: world where
  "fresh_page =
     \<lparr>client = None, roomSession = None, currentToken = JNull, currentDestination = JNull,
      isConnected = False,
      status_className = ''status ready'', status_text = ''Ready'',
      connectBtn_disabled = False, disconnectBtn_disabled = True,
      placeholder = Some False,
      lastGreeting_text = ''-'', lastGreeting_highlight = False,
      lastEcho_text = ''-'', lastEcho_highlight = False,
      counterValue_text = ''0'', counterValue_highlight = False,
      eventLog = [], clock = (\<lambda>n. ''12:00:00''), clock_reads = 0, calls = []\<rparr>"

text \<open>Every external call succeeds and nothing arrives while a call is suspended.\<close>

definition all_succeed :: env where
  "all_succeed =
     \<lparr>fetch_result = Inr (JObj [(''token'', JStr ''tok''), (''address'', JStr ''/public/agent'')]),
      signalwire_result = Inr 1,
      client_on_result = (\<lambda>ch. None),
      dial_result = Inr 2,
      session_on_result = (\<lambda>ch. None),
      start_result = None,
      hangup_result = None,
      type_error_text = ''Cannot read properties of null'',
      conversion_error_text = ''Cannot convert object to primitive value'',
      during_fetch = [], during_init = [], during_dial = [], during_start = [],
      during_hangup = []\<rparr>"

text \<open>One failure for each of the six steps (two for the first).\<close>

definition fetch_rejects :: env where
  "fetch_rejects = all_succeed\<lparr>fetch_result := Inl (JsError ''Failed to fetch'')\<rparr>"

definition token_refused :: env where
  "token_refused = all_succeed\<lparr>fetch_result := Inr (JObj [(''error'', JStr ''No token'')])\<rparr>"

definition init_rejects :: env where
  "init_rejects = all_succeed\<lparr>signalwire_result := Inl (JsError ''Invalid token'')\<rparr>"

definition client_on_throws :: env where
  "client_on_throws =
     all_succeed\<lparr>client_on_result :=
       (\<lambda>ch. if ch = ''calling.user_event'' then Some (JsError ''on failed'') else None)\<rparr>"

definition dial_rejects :: env where
  "dial_rejects = all_succeed\<lparr>dial_result := Inl (JsError ''No route'')\<rparr>"

definition session_on_throws :: env where
  "session_on_throws =
     all_succeed\<lparr>session_on_result :=
       (\<lambda>ch. if ch = ''room.left'' then Some (JsError ''on failed'') else None)\<rparr>"

definition start_rejects :: env where
  "start_rejects = all_succeed\<lparr>start_result := Some (JsError ''Media refused'')\<rparr>"

text \<open>
  A rejection with a string, a rejection with \<open>undefined\<close>, and a token response whose
  \<open>error\<close> field is the empty string.
\<close>

definition dial_rejects_with_text :: env where
  "dial_rejects_with_text = all_succeed\<lparr>dial_result := Inl (Rejected (JStr ''busy''))\<rparr>"

definition start_rejects_with_undefined :: env where
  "start_rejects_with_undefined = all_succeed\<lparr>start_result := Some (Rejected JUndefined)\<rparr>"

definition token_error_empty :: env where
  "token_error_empty =
     all_succeed\<lparr>fetch_result :=
       Inr (JObj [(''error'', JStr []), (''token'', JStr ''tok''),
                  (''address'', JStr ''/public/agent'')])\<rparr>"

text \<open>The agent joins while \<open>start\<close> is awaited.\<close>

definition agent_joins :: env where
  "agent_joins = all_succeed\<lparr>during_start := [OnRoomJoined]\<rparr>"

text \<open>
  The page after a \<open>connect\<close> that went through without \<open>room.joined\<close> arriving yet (a
  session handle, not connected), and after one during which the agent joined.
\<close>

definition dialled_page :: world where
  "dialled_page = connect all_succeed fresh_page"

definition joined_page :: world where
  "joined_page = connect agent_joins fresh_page"

text \<open>Fifty-one log lines, numbered.\<close>

definition fifty_one_messages :: "(string \<times> string) list" where
  "fifty_one_messages = map (\<lambda>i. (''system'', nat_digits i)) [1..<52]"

section \<open>Facts used by several results\<close>

lemma get_prop_string_truthy: "get_prop p k = JStr t \<Longrightarrow> truthy p"
  by (cases p) simp_all

lemma keep_last_50_drop: "keep_last_50 xs = drop (length xs - 50) xs"
proof (induction xs rule: keep_last_50.induct)
  case (1 children)
  show ?case
  proof (cases "length children > 50")
    case True
    then have "keep_last_50 children = keep_last_50 (tl children)"
      by (subst keep_last_50.simps) simp
    also have "\<dots> = drop (length (tl children) - 50) (tl children)"
      using 1 True by simp
    also have "\<dots> = drop (length children - 50) children"
    proof (cases children)
      case Nil
      with True show ?thesis by simp
    next
      case (Cons a rest)
      with True have "length children - 50 = Suc (length rest - 50)" by simp
      with Cons show ?thesis by simp
    qed
    finally show ?thesis .
  next
    case False
    then show ?thesis by (subst keep_last_50.simps) simp
  qed
qed

lemma last_keep_last_50_snoc: "last (keep_last_50 (xs @ [e])) = e"
  by (simp add: keep_last_50_drop)

lemma keep_last_50_snoc_not_Nil: "keep_last_50 (xs @ [e]) \<noteq> []"
  by (simp add: keep_last_50_drop)

lemma keep_last_50_absorb: "keep_last_50 (keep_last_50 ys @ zs) = keep_last_50 (ys @ zs)"
proof (cases "length ys \<le> 50")
  case True
  then show ?thesis by (simp add: keep_last_50_drop)
next
  case False
  then have "length ys + length zs - (length ys - 50 + 50) + (length ys - 50)
               = length ys + length zs - 50"
    by arith
  with False show ?thesis by (simp add: keep_last_50_drop)
qed

lemma logEvent_fields:
  "eventLog (logEvent k m w) = keep_last_50 (eventLog w @ [make_entry (clock w (clock_reads w)) k m])"
  "clock (logEvent k m w) = clock w"
  "clock_reads (logEvent k m w) = Suc (clock_reads w)"
  by (simp_all add: logEvent_def Let_def)

lemma handleDisconnect_fields:
  "status_className (handleDisconnect w) = ''status disconnected''"
  "isConnected (handleDisconnect w) = False"
  "roomSession (handleDisconnect w) = None"
  "eventLog (handleDisconnect w) = eventLog w"
  "calls (handleDisconnect w) = calls w"
  by (simp_all add: handleDisconnect_def updateStatus_def updateButtons_def)

lemma fresh_page_not_connected: "\<not> isConnected fresh_page"
  by (simp add: fresh_page_def)

lemma joined_page_connected: "isConnected joined_page"
  by code_simp

section \<open>Event normalisation\<close>

text \<open>
  C1. \<open>normalize_event\<close> yields an application event exactly when the working payload
  (the event after \<open>unwrap\<close>) is there and its \<open>type\<close> is a string outside the six
  reserved lifecycle types; in every other case it yields \<open>None\<close>.
\<close>

theorem normalize_some_iff:
  "(\<exists>ev. normalize_event raw = Some ev) =
     (truthy (unwrap raw) \<and>
      (\<exists>t. get_prop (unwrap raw) ''type'' = JStr t \<and>
           t \<notin> {''room.joined'', ''room.left'', ''member.joined'', ''member.left'',
                 ''playback.started'', ''playback.ended''}))"
  by (auto simp: normalize_event_def Let_def internalTypes_def split: jv.splits)

theorem normalize_some_iff_witness:
  "\<exists>ev. normalize_event (JObj [(''params'', JObj [(''type'', JStr ''foobar'')])]) = Some ev"
  by (rule iffD2 [OF normalize_some_iff]) (simp add: unwrap_def)

text \<open>
  C2, as the specification states it, fails: when an event has both a \<open>params\<close> and an
  \<open>event\<close> field, the second \<open>if\<close> overwrites what the first one chose, so the payload
  is \<open>raw.event\<close>.
\<close>

theorem params_precedence_counterexample:
  "truthy (get_prop both_wrapped ''params'') \<and>
   unwrap both_wrapped \<noteq> get_prop both_wrapped ''params'' \<and>
   unwrap both_wrapped = get_prop both_wrapped ''event'' \<and>
   normalize_event both_wrapped = Some (Echo (JStr ''hi''))"
  by (simp add: both_wrapped_def unwrap_def normalize_event_def js_or_def internalTypes_def)

text \<open>
  C2, amended. \<open>raw.event\<close> takes precedence: a truthy \<open>event\<close> field is the payload
  whether or not \<open>params\<close> is there; a truthy \<open>params\<close> field is the payload only when
  \<open>event\<close> is absent or falsy; otherwise the payload is \<open>raw\<close> itself. The payload
  is always one of these three, so the unwrapping is never applied a second time.
\<close>

theorem unwrap_event_first:
  "unwrap raw =
     (if truthy raw \<and> truthy (get_prop raw ''event'') then get_prop raw ''event''
      else if truthy raw \<and> truthy (get_prop raw ''params'') then get_prop raw ''params''
      else raw)"
  by (simp add: unwrap_def Let_def)

theorem unwrap_event_first_witness:
  "unwrap (JObj [(''params'', JObj [(''params'', JObj [(''type'', JStr ''greeting'')])])])
     = JObj [(''params'', JObj [(''type'', JStr ''greeting'')])]"
  by (subst unwrap_event_first) simp

text \<open>
  C6. A payload of type \<open>greeting\<close>, \<open>echo\<close> or \<open>counter_updated\<close> yields the matching
  variant. Each field is the payload's own when it is there (and truthy), and the default
  when it is absent: \<open>Unknown\<close> for \<open>name\<close>, the empty string for \<open>message\<close>, 0 for
  \<open>count\<close> and 1 for \<open>increment\<close>.
\<close>

theorem normalize_recognized:
  assumes "unwrap raw = p"
  shows "(get_prop p ''type'' = JStr ''greeting'' \<longrightarrow>
            normalize_event raw = Some (Greeting (js_or (get_prop p ''name'') (JStr ''Unknown''))) \<and>
            (get_prop p ''name'' = JUndefined \<longrightarrow>
               normalize_event raw = Some (Greeting (JStr ''Unknown''))) \<and>
            (truthy (get_prop p ''name'') \<longrightarrow>
               normalize_event raw = Some (Greeting (get_prop p ''name'')))) \<and>
         (get_prop p ''type'' = JStr ''echo'' \<longrightarrow>
            normalize_event raw = Some (Echo (js_or (get_prop p ''message'') (JStr []))) \<and>
            (get_prop p ''message'' = JUndefined \<longrightarrow>
               normalize_event raw = Some (Echo (JStr []))) \<and>
            (truthy (get_prop p ''message'') \<longrightarrow>
               normalize_event raw = Some (Echo (get_prop p ''message'')))) \<and>
         (get_prop p ''type'' = JStr ''counter_updated'' \<longrightarrow>
            normalize_event raw =
              Some (CounterUpdated (js_or (get_prop p ''count'') (JNum 0))
                                   (js_or (get_prop p ''increment'') (JNum 1))) \<and>
            (get_prop p ''count'' = JUndefined \<longrightarrow> get_prop p ''increment'' = JUndefined \<longrightarrow>
               normalize_event raw = Some (CounterUpdated (JNum 0) (JNum 1))) \<and>
            (truthy (get_prop p ''count'') \<longrightarrow> get_prop p ''increment'' = JUndefined \<longrightarrow>
               normalize_event raw = Some (CounterUpdated (get_prop p ''count'') (JNum 1))) \<and>
            (get_prop p ''count'' = JUndefined \<longrightarrow> truthy (get_prop p ''increment'') \<longrightarrow>
               normalize_event raw = Some (CounterUpdated (JNum 0) (get_prop p ''increment''))) \<and>
            (truthy (get_prop p ''count'') \<longrightarrow> truthy (get_prop p ''increment'') \<longrightarrow>
               normalize_event raw =
                 Some (CounterUpdated (get_prop p ''count'') (get_prop p ''increment''))))"
  using assms
  by (auto simp: normalize_event_def Let_def internalTypes_def js_or_def
           dest: get_prop_string_truthy)

text \<open>The three examples of the specification, obtained from the theorem.\<close>

theorem normalize_recognized_witness:
  "normalize_event (JObj [(''type'', JStr ''greeting''), (''name'', JStr ''Ana'')])
     = Some (Greeting (JStr ''Ana'')) \<and>
   normalize_event (JObj [(''params'', JObj [(''type'', JStr ''greeting'')])])
     = Some (Greeting (JStr ''Unknown'')) \<and>
   normalize_event
     (JObj [(''event'', JObj [(''type'', JStr ''counter_updated''), (''count'', JNum 5)])])
     = Some (CounterUpdated (JNum 5) (JNum 1))"
  using
    normalize_recognized
      [of "JObj [(''type'', JStr ''greeting''), (''name'', JStr ''Ana'')]"
          "JObj [(''type'', JStr ''greeting''), (''name'', JStr ''Ana'')]"]
    normalize_recognized
      [of "JObj [(''params'', JObj [(''type'', JStr ''greeting'')])]"
          "JObj [(''type'', JStr ''greeting'')]"]
    normalize_recognized
      [of "JObj [(''event'', JObj [(''type'', JStr ''counter_updated''), (''count'', JNum 5)])]"
          "JObj [(''type'', JStr ''counter_updated''), (''count'', JNum 5)]"]
  by (simp add: unwrap_def js_or_def)

text \<open>
  C7. A payload whose \<open>type\<close> is a string that is neither reserved nor one of
  \<open>greeting\<close>, \<open>echo\<close>, \<open>counter_updated\<close> is classified as \<open>Unknown\<close> with that
  string, and \<open>handleUserEvent\<close> appends an entry of kind \<open>unknown\<close> naming it to the
  log: the event is not dropped.
\<close>

theorem unknown_type_surfaced:
  assumes "get_prop (unwrap raw) ''type'' = JStr t"
    and "t \<notin> {''room.joined'', ''room.left'', ''member.joined'', ''member.left'',
               ''playback.started'', ''playback.ended''}"
    and "t \<notin> {''greeting'', ''echo'', ''counter_updated''}"
  shows "normalize_event raw = Some (Unknown t) \<and>
         handleUserEvent raw w = logEvent ''unknown'' (''Unknown event: '' @ t) w \<and>
         eventLog (handleUserEvent raw w) \<noteq> [] \<and>
         last (eventLog (handleUserEvent raw w))
           = make_entry (clock w (clock_reads w)) ''unknown'' (''Unknown event: '' @ t)"
proof -
  have n: "normalize_event raw = Some (Unknown t)"
    using assms get_prop_string_truthy [OF assms(1)]
    by (simp add: normalize_event_def Let_def internalTypes_def)
  then have h: "handleUserEvent raw w = logEvent ''unknown'' (''Unknown event: '' @ t) w"
    by (simp add: handleUserEvent_def)
  show ?thesis
    using n h
    by (simp add: logEvent_def Let_def last_keep_last_50_snoc keep_last_50_snoc_not_Nil)
qed

theorem unknown_type_surfaced_witness:
  "normalize_event (JObj [(''type'', JStr ''foobar'')]) = Some (Unknown ''foobar'')"
  using unknown_type_surfaced [of "JObj [(''type'', JStr ''foobar'')]" "''foobar''"]
  by (simp add: unwrap_def)

text \<open>
  C10. The defaults replace every falsy value, present or not: a \<open>greeting\<close> whose
  \<open>name\<close> is falsy (the empty string in particular) is greeted as \<open>Unknown\<close>, a
  \<open>counter_updated\<close> whose \<open>increment\<close> is falsy (0 in particular) has increment 1,
  and one whose \<open>count\<close> is 0 keeps the count 0.
\<close>

theorem falsy_fields_get_defaults:
  assumes "unwrap raw = p"
  shows "(get_prop p ''type'' = JStr ''greeting'' \<longrightarrow> \<not> truthy (get_prop p ''name'') \<longrightarrow>
            normalize_event raw = Some (Greeting (JStr ''Unknown''))) \<and>
         (get_prop p ''type'' = JStr ''greeting'' \<longrightarrow> get_prop p ''name'' = JStr [] \<longrightarrow>
            normalize_event raw = Some (Greeting (JStr ''Unknown''))) \<and>
         (get_prop p ''type'' = JStr ''counter_updated'' \<longrightarrow>
            \<not> truthy (get_prop p ''increment'') \<longrightarrow>
            normalize_event raw =
              Some (CounterUpdated (js_or (get_prop p ''count'') (JNum 0)) (JNum 1))) \<and>
         (get_prop p ''type'' = JStr ''counter_updated'' \<longrightarrow>
            get_prop p ''increment'' = JNum 0 \<longrightarrow>
            normalize_event raw =
              Some (CounterUpdated (js_or (get_prop p ''count'') (JNum 0)) (JNum 1))) \<and>
         (get_prop p ''type'' = JStr ''counter_updated'' \<longrightarrow> get_prop p ''count'' = JNum 0 \<longrightarrow>
            normalize_event raw =
              Some (CounterUpdated (JNum 0) (js_or (get_prop p ''increment'') (JNum 1))))"
  using assms
  by (auto simp: normalize_event_def Let_def internalTypes_def js_or_def
           dest: get_prop_string_truthy)

theorem falsy_fields_get_defaults_witness:
  "normalize_event (JObj [(''type'', JStr ''greeting''), (''name'', JStr [])])
     = Some (Greeting (JStr ''Unknown'')) \<and>
   normalize_event
     (JObj [(''type'', JStr ''counter_updated''), (''count'', JNum 0), (''increment'', JNum 0)])
     = Some (CounterUpdated (JNum 0) (JNum 1))"
  using
    falsy_fields_get_defaults
      [of "JObj [(''type'', JStr ''greeting''), (''name'', JStr [])]"
          "JObj [(''type'', JStr ''greeting''), (''name'', JStr [])]"]
    falsy_fields_get_defaults
      [of "JObj [(''type'', JStr ''counter_updated''), (''count'', JNum 0), (''increment'', JNum 0)]"
          "JObj [(''type'', JStr ''counter_updated''), (''count'', JNum 0), (''increment'', JNum 0)]"]
  by (simp add: unwrap_def js_or_def)

section \<open>The event log\<close>

lemma length_entries: "length (entries clk n kms) = length kms"
  by (induction clk n kms rule: entries.induct) simp_all

lemma eventLog_log_all:
  "kms \<noteq> [] \<Longrightarrow>
   eventLog (log_all kms w) = keep_last_50 (eventLog w @ entries (clock w) (clock_reads w) kms)"
proof (induction kms w rule: log_all.induct)
  case (1 w)
  then show ?case by simp
next
  case (2 kind msg rest w)
  show ?case
  proof (cases "rest = []")
    case True
    then show ?thesis by (simp add: logEvent_fields)
  next
    case False
    with 2 show ?thesis
      by (simp add: logEvent_fields keep_last_50_absorb)
  qed
qed

text \<open>
  C4. After \<open>logEvent\<close> the log holds at most 50 entries; it is the end of the old log
  followed by the new entry, so whatever was removed was removed from the front and the new
  entry is last. Fifty-one calls on an empty log leave exactly 50 entries: all that were
  created except the first, the 51st being the last.
\<close>

theorem log_capped_fifo:
  "length (eventLog (logEvent kind msg w)) \<le> 50 \<and>
   eventLog (logEvent kind msg w)
     = drop (length (eventLog w) + 1 - 50)
         (eventLog w @ [make_entry (clock w (clock_reads w)) kind msg]) \<and>
   last (eventLog (logEvent kind msg w)) = make_entry (clock w (clock_reads w)) kind msg \<and>
   (eventLog w = [] \<longrightarrow> length kms = 51 \<longrightarrow>
      length (eventLog (log_all kms w)) = 50 \<and>
      eventLog (log_all kms w) = tl (entries (clock w) (clock_reads w) kms) \<and>
      last (eventLog (log_all kms w)) = last (entries (clock w) (clock_reads w) kms))"
proof -
  have a: "length (eventLog (logEvent kind msg w)) \<le> 50"
    by (simp add: logEvent_fields keep_last_50_drop)
  have b: "eventLog (logEvent kind msg w)
     = drop (length (eventLog w) + 1 - 50)
         (eventLog w @ [make_entry (clock w (clock_reads w)) kind msg])"
    by (simp add: logEvent_fields keep_last_50_drop)
  have c: "last (eventLog (logEvent kind msg w)) = make_entry (clock w (clock_reads w)) kind msg"
    by (simp add: logEvent_fields last_keep_last_50_snoc)
  have d: "length (eventLog (log_all kms w)) = 50 \<and>
      eventLog (log_all kms w) = tl (entries (clock w) (clock_reads w) kms) \<and>
      last (eventLog (log_all kms w)) = last (entries (clock w) (clock_reads w) kms)"
    if e: "eventLog w = []" and l: "length kms = 51"
  proof -
    let ?es = "entries (clock w) (clock_reads w) kms"
    from l have ne: "kms \<noteq> []" by auto
    have len: "length ?es = 51" using l by (simp add: length_entries)
    have eq: "eventLog (log_all kms w) = drop 1 ?es"
      using eventLog_log_all [OF ne, of w] e len by (simp add: keep_last_50_drop)
    have "tl ?es \<noteq> []" using len by (cases ?es) auto
    then have "last (tl ?es) = last ?es" by (simp add: last_tl)
    with eq len show ?thesis by (simp add: drop_Suc)
  qed
  from a b c d show ?thesis by blast
qed

theorem log_capped_fifo_witness:
  "length (eventLog (log_all fifty_one_messages fresh_page)) = 50 \<and>
   eventLog (log_all fifty_one_messages fresh_page)
     = tl (entries (clock fresh_page) (clock_reads fresh_page) fifty_one_messages)"
proof -
  have e: "eventLog fresh_page = []" by (simp add: fresh_page_def)
  have l: "length fifty_one_messages = 51" by (simp add: fifty_one_messages_def)
  from log_capped_fifo [where w = fresh_page and kms = fifty_one_messages] e l
  show ?thesis by blast
qed

section \<open>Failures of \<open>connect\<close>\<close>

lemma first_some_nested: "first_some (first_some xs # ys) = first_some (xs @ ys)"
proof (induction xs)
  case Nil
  show ?case by simp
next
  case (Cons x xs)
  then show ?case by (cases x) simp_all
qed

lemma first_some_single: "first_some [x] = x"
  by (cases x) simp_all

lemma fst_and_then: "fst (and_then r f) = first_some [fst r, fst (f (snd r))]"
  by (cases r) (auto simp: and_then_def first_some_single split: option.splits)

lemma fst_subscribe: "fst (subscribe mk res chs w) = first_some (map res chs)"
  by (induction chs arbitrary: w) (auto simp: Let_def split: option.splits)

lemma fst_fetch_token: "fst (fetch_token env w) = token_failure env"
  by (auto simp: fetch_token_def token_failure_def Let_def split: sum.splits)

lemma fst_init_client: "fst (init_client env w) = init_failure env"
  by (auto simp: init_client_def init_failure_def Let_def split: sum.splits)

lemma fst_client_listeners: "fst (client_listeners env w) = client_listeners_failure env"
proof -
  have "first_some [x, None] = x" for x by (cases x) simp_all
  then show ?thesis
    by (simp add: client_listeners_def client_listeners_failure_def fst_and_then fst_subscribe
          del: subscribe.simps first_some.simps list.map)
qed

lemma fst_dial_agent: "fst (dial_agent env w) = dial_failure env"
  by (auto simp: dial_agent_def dial_failure_def Let_def split: sum.splits)

lemma fst_session_listeners: "fst (session_listeners env w) = session_listeners_failure env"
  by (simp add: session_listeners_def session_listeners_failure_def fst_subscribe
        del: subscribe.simps first_some.simps list.map)

lemma fst_start_call: "fst (start_call env w) = start_result env"
  by (auto simp: start_call_def Let_def split: option.splits)

text \<open>
  The \<open>try\<close> body of \<open>connect\<close> throws exactly what the first failing step raises, on
  whatever page it starts.
\<close>

lemma fst_connect_try: "fst (connect_try env w) = first_failure env"
proof -
  have n: "first_some [first_some xs, y] = first_some (xs @ [y])" for xs y
    by (rule first_some_nested)
  show ?thesis
    unfolding connect_try_def first_failure_def fst_and_then fst_fetch_token fst_init_client
      fst_client_listeners fst_dial_agent fst_session_listeners fst_start_call
    by (simp only: n append.simps)
qed

text \<open>
  C3, as the specification states it, fails for a token response that returns an \<open>error\<close>
  field which is falsy: line 82 tests the field for truthiness, so with the empty string
  \<open>connect\<close> goes through all six steps, logs no error and ends with the status
  \<open>connecting\<close>.
\<close>

theorem connect_failure_counterexample:
  "get_prop (JObj [(''error'', JStr []), (''token'', JStr ''tok''),
                   (''address'', JStr ''/public/agent'')]) ''error'' = JStr [] \<and>
   fetch_result token_error_empty
     = Inr (JObj [(''error'', JStr []), (''token'', JStr ''tok''),
                  (''address'', JStr ''/public/agent'')]) \<and>
   first_failure token_error_empty = None \<and>
   status_className (connect token_error_empty fresh_page) = ''status connecting'' \<and>
   last (calls (connect token_error_empty fresh_page)) = Start \<and>
   ''log-entry error''
     \<notin> set (map className (eventLog (connect token_error_empty fresh_page)))"
  by code_simp

text \<open>
  A rejection with \<open>undefined\<close> (or \<open>null\<close>) is a failure that the \<open>catch\<close> block
  does not survive: reading \<open>error.message\<close> at line 195 throws, so nothing is logged,
  the status stays \<open>connecting\<close> and the session handle stays.
\<close>

lemma undefined_rejection_leaves_connecting:
  "first_failure start_rejects_with_undefined = Some (Rejected JUndefined) \<and>
   error_message (Rejected JUndefined) = None \<and>
   status_className (connect start_rejects_with_undefined fresh_page) = ''status connecting'' \<and>
   roomSession (connect start_rejects_with_undefined fresh_page) = Some 2 \<and>
   ''log-entry error''
     \<notin> set (map className (eventLog (connect start_rejects_with_undefined fresh_page)))"
  by code_simp

text \<open>
  C3, amended. A step fails when its call rejects or throws; the first one also when the
  token response is \<open>null\<close>, carries a truthy \<open>error\<close> field or an address without a
  text. When \<open>connect\<close> runs (the page is not connected), the first failing step raises
  \<open>e\<close>, and the message of \<open>e\<close> can be read (\<open>e\<close> is not \<open>null\<close> or
  \<open>undefined\<close>), the \<open>catch\<close> block passes through exactly three pages: the one on
  which \<open>Connection failed\<close> with that message is logged with kind \<open>error\<close>, the one
  on which the status is \<open>error\<close>, and the torn-down one, which is the result. So the
  status ends as \<open>disconnected\<close>, neither \<open>connecting\<close> nor \<open>error\<close>, the flag is
  false, the session handle is cleared, and the last log entry is the error.
\<close>

theorem connect_failure_ends_disconnected:
  assumes "\<not> isConnected w" and "first_failure env = Some e" and "error_message e = Some m"
  shows "let w' = snd (connect_try env (connect_begin w));
             a = logEvent ''error'' (''Connection failed: '' @ m) w';
             b = updateStatus ''error'' ''Connection failed'' a;
             c = handleDisconnect b
         in fst (connect_try env (connect_begin w)) = Some e \<and>
            connect_catch_states e w' = [a, b, c] \<and>
            connect env w = c \<and>
            last (eventLog a)
              = make_entry (clock w' (clock_reads w')) ''error'' (''Connection failed: '' @ m) \<and>
            map status_className [a, b, c]
              = [status_className w', ''status error'', ''status disconnected''] \<and>
            connection_state (connect env w) = (''status disconnected'', False, None) \<and>
            status_className (connect env w) \<noteq> ''status connecting'' \<and>
            status_className (connect env w) \<noteq> ''status error'' \<and>
            last (eventLog (connect env w))
              = make_entry (clock w' (clock_reads w')) ''error'' (''Connection failed: '' @ m)"
proof -
  define w' where "w' = snd (connect_try env (connect_begin w))"
  define a where "a = logEvent ''error'' (''Connection failed: '' @ m) w'"
  define b where "b = updateStatus ''error'' ''Connection failed'' a"
  define c where "c = handleDisconnect b"
  have f: "fst (connect_try env (connect_begin w)) = Some e"
    using assms(2) by (simp add: fst_connect_try)
  then have t: "connect_try env (connect_begin w) = (Some e, w')"
    by (simp add: w'_def prod_eq_iff)
  have s: "connect_catch_states e w' = [a, b, c]"
    using assms(3) by (simp add: connect_catch_states_def a_def b_def c_def)
  have r: "connect env w = c"
    using assms(1) t s by (simp add: connect_def connect_catch_def)
  have la: "last (eventLog a)
              = make_entry (clock w' (clock_reads w')) ''error'' (''Connection failed: '' @ m)"
    by (simp add: a_def logEvent_fields last_keep_last_50_snoc)
  have st: "map status_className [a, b, c]
              = [status_className w', ''status error'', ''status disconnected'']"
    by (simp add: a_def b_def c_def handleDisconnect_fields updateStatus_def logEvent_def Let_def)
  have cs: "connection_state c = (''status disconnected'', False, None)"
    by (simp add: c_def connection_state_def handleDisconnect_fields)
  have lc: "last (eventLog c) = last (eventLog a)"
    by (simp add: c_def b_def handleDisconnect_fields updateStatus_def)
  have sc: "status_className c = ''status disconnected''"
    by (simp add: c_def handleDisconnect_fields)
  show ?thesis
    unfolding Let_def w'_def [symmetric] a_def [symmetric] b_def [symmetric] c_def [symmetric]
    using f s r la st cs lc sc by simp
qed

text \<open>
  One failing run for each step (two for the first), and one whose rejection is a string
  and not an \<open>Error\<close>, each ending disconnected.
\<close>

theorem connect_failure_ends_disconnected_witness:
  "status_className (connect fetch_rejects fresh_page) = ''status disconnected'' \<and>
   status_className (connect token_refused fresh_page) = ''status disconnected'' \<and>
   status_className (connect init_rejects fresh_page) = ''status disconnected'' \<and>
   status_className (connect client_on_throws fresh_page) = ''status disconnected'' \<and>
   status_className (connect dial_rejects fresh_page) = ''status disconnected'' \<and>
   status_className (connect session_on_throws fresh_page) = ''status disconnected'' \<and>
   status_className (connect start_rejects fresh_page) = ''status disconnected'' \<and>
   status_className (connect dial_rejects_with_text fresh_page) = ''status disconnected''"
proof -
  note n = fresh_page_not_connected
  note d = first_failure_def token_failure_def init_failure_def client_listeners_failure_def
    dial_failure_def session_listeners_failure_def all_succeed_def
  have k: "connection_state x = (''status disconnected'', False, None)
             \<Longrightarrow> status_className x = ''status disconnected''" for x
    by (simp add: connection_state_def)
  have "first_failure fetch_rejects = Some (JsError ''Failed to fetch'')"
    by (simp add: d fetch_rejects_def)
  from connect_failure_ends_disconnected [OF n this error_message.simps(1), unfolded Let_def]
  have "connection_state (connect fetch_rejects fresh_page) = (''status disconnected'', False, None)"
    by blast
  then have a: "status_className (connect fetch_rejects fresh_page) = ''status disconnected''"
    by (rule k)
  have "first_failure token_refused = Some (JsError ''No token'')"
    by (simp add: d token_refused_def)
  from connect_failure_ends_disconnected [OF n this error_message.simps(1), unfolded Let_def]
  have "connection_state (connect token_refused fresh_page) = (''status disconnected'', False, None)"
    by blast
  then have b: "status_className (connect token_refused fresh_page) = ''status disconnected''"
    by (rule k)
  have "first_failure init_rejects = Some (JsError ''Invalid token'')"
    by (simp add: d init_rejects_def)
  from connect_failure_ends_disconnected [OF n this error_message.simps(1), unfolded Let_def]
  have "connection_state (connect init_rejects fresh_page) = (''status disconnected'', False, None)"
    by blast
  then have c: "status_className (connect init_rejects fresh_page) = ''status disconnected''"
    by (rule k)
  have "first_failure client_on_throws = Some (JsError ''on failed'')"
    by (simp add: d client_on_throws_def)
  from connect_failure_ends_disconnected [OF n this error_message.simps(1), unfolded Let_def]
  have "connection_state (connect client_on_throws fresh_page) = (''status disconnected'', False, None)"
    by blast
  then have e: "status_className (connect client_on_throws fresh_page) = ''status disconnected''"
    by (rule k)
  have "first_failure dial_rejects = Some (JsError ''No route'')"
    by (simp add: d dial_rejects_def)
  from connect_failure_ends_disconnected [OF n this error_message.simps(1), unfolded Let_def]
  have "connection_state (connect dial_rejects fresh_page) = (''status disconnected'', False, None)"
    by blast
  then have f: "status_className (connect dial_rejects fresh_page) = ''status disconnected''"
    by (rule k)
  have "first_failure session_on_throws = Some (JsError ''on failed'')"
    by (simp add: d session_on_throws_def)
  from connect_failure_ends_disconnected [OF n this error_message.simps(1), unfolded Let_def]
  have "connection_state (connect session_on_throws fresh_page) = (''status disconnected'', False, None)"
    by blast
  then have g: "status_className (connect session_on_throws fresh_page) = ''status disconnected''"
    by (rule k)
  have "first_failure start_rejects = Some (JsError ''Media refused'')"
    by (simp add: d start_rejects_def)
  from connect_failure_ends_disconnected [OF n this error_message.simps(1), unfolded Let_def]
  have "connection_state (connect start_rejects fresh_page) = (''status disconnected'', False, None)"
    by blast
  then have h: "status_className (connect start_rejects fresh_page) = ''status disconnected''"
    by (rule k)
  have "first_failure dial_rejects_with_text = Some (Rejected (JStr ''busy''))"
    by (simp add: d dial_rejects_with_text_def)
  moreover have "error_message (Rejected (JStr ''busy'')) = Some ''undefined''"
    by simp
  ultimately have "connection_state (connect dial_rejects_with_text fresh_page)
                     = (''status disconnected'', False, None)"
    using connect_failure_ends_disconnected [OF n, unfolded Let_def] by blast
  then have i: "status_className (connect dial_rejects_with_text fresh_page)
                  = ''status disconnected''"
    by (rule k)
  from a b c e f g h i show ?thesis by simp
qed

section \<open>Teardown and \<open>disconnect\<close>\<close>

text \<open>
  C5. The teardown is idempotent: a second \<open>handleDisconnect\<close> changes nothing, and
  after \<open>room.left\<close> and \<open>destroy\<close> in either order the page is disconnected with no
  session handle. A second \<open>disconnect\<close> only logs that the page is not connected and
  leaves the connection state as the first call left it, which is disconnected whenever
  the first call had a flag or a session handle to tear down. Nothing here can throw: the
  functions are total, and the rejection of \<open>hangup\<close> (any \<open>hangup_result\<close>) is dropped.
\<close>

theorem teardown_idempotent:
  "handleDisconnect (handleDisconnect w) = handleDisconnect w \<and>
   connection_state (handleDisconnect w) = (''status disconnected'', False, None) \<and>
   connection_state (dispatch OnDestroy (dispatch OnRoomLeft w))
     = (''status disconnected'', False, None) \<and>
   connection_state (dispatch OnRoomLeft (dispatch OnDestroy w))
     = (''status disconnected'', False, None) \<and>
   disconnect env2 (disconnect env1 w) = logEvent ''system'' ''Not connected'' (disconnect env1 w) \<and>
   connection_state (disconnect env2 (disconnect env1 w)) = connection_state (disconnect env1 w) \<and>
   (isConnected w \<or> roomSession w \<noteq> None \<longrightarrow>
      connection_state (disconnect env1 w) = (''status disconnected'', False, None))"
proof -
  have a: "handleDisconnect (handleDisconnect w) = handleDisconnect w"
    by (simp add: handleDisconnect_def updateStatus_def updateButtons_def)
  have b: "connection_state (handleDisconnect v) = (''status disconnected'', False, None)" for v
    by (simp add: connection_state_def handleDisconnect_fields)
  have g: "\<not> isConnected (disconnect env1 w) \<and> roomSession (disconnect env1 w) = None"
    if "isConnected w \<or> roomSession w \<noteq> None"
    using that
    by (auto simp: disconnect_def Let_def handleDisconnect_fields split: prod.splits option.splits)
  have n: "isConnected (disconnect env1 w) = isConnected w \<and>
           roomSession (disconnect env1 w) = roomSession w"
    if "\<not> (isConnected w \<or> roomSession w \<noteq> None)"
    using that by (simp add: disconnect_def logEvent_def Let_def)
  have d: "disconnect env2 (disconnect env1 w)
             = logEvent ''system'' ''Not connected'' (disconnect env1 w)"
  proof (cases "isConnected w \<or> roomSession w \<noteq> None")
    case True
    from g [OF True] show ?thesis by (simp add: disconnect_def [of env2])
  next
    case False
    from n [OF False] False show ?thesis by (simp add: disconnect_def [of env2])
  qed
  have e: "connection_state (disconnect env2 (disconnect env1 w))
             = connection_state (disconnect env1 w)"
    unfolding d by (simp add: connection_state_def logEvent_def Let_def)
  have f: "connection_state (disconnect env1 w) = (''status disconnected'', False, None)"
    if "isConnected w \<or> roomSession w \<noteq> None"
    using that by (auto simp: disconnect_def Let_def b split: prod.splits option.splits)
  show ?thesis using a b d e f by simp
qed

theorem teardown_idempotent_witness:
  "connection_state (disconnect all_succeed (disconnect all_succeed joined_page))
     = (''status disconnected'', False, None)"
proof -
  note t = teardown_idempotent [of joined_page all_succeed all_succeed]
  from t have "connection_state (disconnect all_succeed (disconnect all_succeed joined_page))
                 = connection_state (disconnect all_succeed joined_page)"
    by blast
  moreover from t joined_page_connected
  have "connection_state (disconnect all_succeed joined_page)
          = (''status disconnected'', False, None)"
    by blast
  ultimately show ?thesis by simp
qed

section \<open>\<open>connect\<close> on a page that already has a call\<close>

text \<open>
  C8, as the specification states it, fails for a state in which a session exists but
  \<open>room.joined\<close> has not arrived: \<open>connect\<close> tests the flag only, so it runs again. On
  the page left by a first \<open>connect\<close> (session handle 2, flag false) a second one calls
  the token endpoint, and when that fails the teardown clears the session handle.
\<close>

theorem connect_with_session_counterexample:
  "roomSession dialled_page = Some 2 \<and>
   \<not> isConnected dialled_page \<and>
   calls (connect fetch_rejects dialled_page) = calls dialled_page @ [Fetch] \<and>
   roomSession (connect fetch_rejects dialled_page) = None \<and>
   status_className (connect fetch_rejects dialled_page) = ''status disconnected''"
  by code_simp

text \<open>
  C8, amended. When the \<open>isConnected\<close> flag is set, \<open>connect\<close> only appends the notice
  \<open>Already connected\<close> to the log: no external call is made, and the status, the flag,
  the session handle, the client and the credentials stay as they are.
\<close>

theorem connect_when_connected_only_logs:
  assumes "isConnected w"
  shows "connect env w = logEvent ''system'' ''Already connected'' w \<and>
         calls (connect env w) = calls w \<and>
         status_className (connect env w) = status_className w \<and>
         status_text (connect env w) = status_text w \<and>
         isConnected (connect env w) \<and>
         roomSession (connect env w) = roomSession w \<and>
         client (connect env w) = client w \<and>
         currentToken (connect env w) = currentToken w \<and>
         currentDestination (connect env w) = currentDestination w \<and>
         eventLog (connect env w)
           = keep_last_50
               (eventLog w @ [make_entry (clock w (clock_reads w)) ''system'' ''Already connected''])"
  using assms by (simp add: connect_def logEvent_def Let_def)

theorem connect_when_connected_only_logs_witness:
  "calls (connect all_succeed joined_page) = calls joined_page \<and>
   roomSession (connect all_succeed joined_page) = roomSession joined_page \<and>
   status_className (connect all_succeed joined_page) = status_className joined_page"
  using connect_when_connected_only_logs [OF joined_page_connected, of all_succeed] by blast

section \<open>The buttons\<close>

lemma follow_refl: "buttons_follow w w"
  by (simp add: buttons_follow_def)

lemma follow_trans: "buttons_follow a b \<Longrightarrow> buttons_follow b c \<Longrightarrow> buttons_follow a c"
  by (auto simp: buttons_follow_def buttons_reflect_def)

lemma follow_logEvent: "buttons_follow w (logEvent k m w)"
  by (simp add: buttons_follow_def logEvent_def Let_def)

lemma follow_updateStatus: "buttons_follow w (updateStatus s t w)"
  by (simp add: buttons_follow_def updateStatus_def)

lemma follow_called: "buttons_follow w (called c w)"
  by (simp add: buttons_follow_def called_def)

lemma reflect_handleDisconnect: "buttons_reflect (handleDisconnect w)"
  by (simp add: buttons_reflect_def handleDisconnect_def updateStatus_def updateButtons_def)

lemma reflect_room_joined: "buttons_reflect (room_joined w)"
  by (simp add: buttons_reflect_def room_joined_def updateStatus_def updateButtons_def
        logEvent_def Let_def split: option.splits)

lemma follow_reflect: "buttons_follow w (reflect ev w)"
  by (cases ev) (simp_all add: buttons_follow_def logEvent_def Let_def)

lemma follow_handleUserEvent: "buttons_follow w (handleUserEvent p w)"
  by (simp add: handleUserEvent_def follow_refl follow_reflect split: option.splits)

lemma follow_clear_highlight: "buttons_follow w (clear_highlight el w)"
  by (cases el) (simp_all add: buttons_follow_def)

lemma follow_dispatch: "buttons_follow w (dispatch n w)"
proof (cases n)
  case (OnUserEvent p)
  then show ?thesis by (simp add: follow_handleUserEvent)
next
  case (OnSignalwireEvent p)
  then show ?thesis by (simp add: follow_handleUserEvent follow_refl)
next
  case OnRoomJoined
  then show ?thesis by (simp add: buttons_follow_def reflect_room_joined)
next
  case OnRoomLeft
  then show ?thesis by (simp add: buttons_follow_def reflect_handleDisconnect)
next
  case OnDestroy
  then show ?thesis by (simp add: buttons_follow_def reflect_handleDisconnect)
next
  case (OnTimeout el)
  then show ?thesis by (simp add: follow_clear_highlight)
qed

lemma follow_deliver: "buttons_follow w (deliver ns w)"
proof (induction ns arbitrary: w)
  case Nil
  show ?case by (simp add: deliver_def follow_refl)
next
  case (Cons n ns)
  have "buttons_follow w (dispatch n w)" by (rule follow_dispatch)
  moreover have "buttons_follow (dispatch n w) (deliver ns (dispatch n w))" by (rule Cons.IH)
  ultimately have "buttons_follow w (deliver ns (dispatch n w))" by (rule follow_trans)
  then show ?case by (simp add: deliver_def)
qed

lemma follow_suspend: "buttons_follow w (deliver ns (called c w))"
  by (rule follow_trans [OF follow_called follow_deliver])

lemma follow_and_then:
  assumes "buttons_follow w (snd r)" and "\<And>v. buttons_follow v (snd (f v))"
  shows "buttons_follow w (snd (and_then r f))"
proof (cases r)
  case (Pair e v)
  show ?thesis
  proof (cases e)
    case None
    with Pair assms(1) assms(2) [of v] show ?thesis
      by (auto simp: and_then_def intro: follow_trans)
  next
    case (Some a)
    with Pair assms(1) show ?thesis by (simp add: and_then_def)
  qed
qed

lemma follow_subscribe: "buttons_follow w (snd (subscribe mk res chs w))"
proof (induction chs arbitrary: w)
  case Nil
  show ?case by (simp add: follow_refl)
next
  case (Cons ch chs)
  show ?case
  proof (cases "res ch")
    case None
    have "buttons_follow (called (mk ch) w) (snd (subscribe mk res chs (called (mk ch) w)))"
      by (rule Cons.IH)
    with follow_called [of w "mk ch"] have
      "buttons_follow w (snd (subscribe mk res chs (called (mk ch) w)))"
      by (rule follow_trans)
    with None show ?thesis by (simp add: Let_def)
  next
    case (Some e)
    then show ?thesis by (simp add: Let_def follow_called)
  qed
qed

lemma follow_fetch_token: "buttons_follow w (snd (fetch_token env w))"
proof -
  let ?v = "deliver (during_fetch env) (called Fetch w)"
  have v: "buttons_follow w ?v" by (rule follow_suspend)
  have "buttons_follow ?v (snd (fetch_token env w))"
    by (auto simp: fetch_token_def Let_def follow_refl buttons_follow_def logEvent_def
          updateStatus_def split: sum.splits)
  with v show ?thesis by (rule follow_trans)
qed

lemma follow_init_client: "buttons_follow w (snd (init_client env w))"
proof -
  let ?v = "deliver (during_init env) (called (SignalWireInit (currentToken w)) w)"
  have v: "buttons_follow w ?v" by (rule follow_suspend)
  have "buttons_follow ?v (snd (init_client env w))"
    by (auto simp: init_client_def Let_def buttons_follow_def logEvent_def split: sum.splits)
  with v show ?thesis by (rule follow_trans)
qed

lemma follow_client_listeners: "buttons_follow w (snd (client_listeners env w))"
  unfolding client_listeners_def
  by (rule follow_and_then [OF follow_subscribe]) (simp add: follow_updateStatus)

lemma follow_dial_agent: "buttons_follow w (snd (dial_agent env w))"
proof -
  let ?v = "deliver (during_dial env) (called (Dial (currentDestination w)) w)"
  have v: "buttons_follow w ?v" by (rule follow_suspend)
  have "buttons_follow ?v (snd (dial_agent env w))"
    by (auto simp: dial_agent_def Let_def buttons_follow_def logEvent_def split: sum.splits)
  with v show ?thesis by (rule follow_trans)
qed

lemma follow_session_listeners: "buttons_follow w (snd (session_listeners env w))"
  unfolding session_listeners_def by (rule follow_subscribe)

lemma follow_start_call: "buttons_follow w (snd (start_call env w))"
proof -
  let ?v = "deliver (during_start env) (called Start w)"
  have v: "buttons_follow w ?v" by (rule follow_suspend)
  have "buttons_follow ?v (snd (start_call env w))"
    by (auto simp: start_call_def Let_def buttons_follow_def logEvent_def split: option.splits)
  with v show ?thesis by (rule follow_trans)
qed

lemma follow_connect_try: "buttons_follow w (snd (connect_try env w))"
  unfolding connect_try_def
  by (intro follow_and_then follow_fetch_token follow_init_client follow_client_listeners
        follow_dial_agent follow_session_listeners follow_start_call)

lemma follow_connect_catch: "buttons_follow w (connect_catch e w)"
proof (cases "error_message e")
  case None
  then show ?thesis
    by (simp add: connect_catch_def connect_catch_states_def follow_refl)
next
  case (Some m)
  then show ?thesis
    by (simp add: connect_catch_def connect_catch_states_def buttons_follow_def
          reflect_handleDisconnect)
qed

lemma follow_connect: "buttons_follow w (connect env w)"
proof (cases "isConnected w")
  case True
  then show ?thesis by (simp add: connect_def follow_logEvent)
next
  case False
  have s: "buttons_follow w (connect_begin w)"
    unfolding connect_begin_def Let_def
    by (rule follow_trans [OF follow_updateStatus follow_logEvent])
  obtain e v where t: "connect_try env (connect_begin w) = (e, v)"
    by (cases "connect_try env (connect_begin w)")
  have "buttons_follow (connect_begin w) (snd (connect_try env (connect_begin w)))"
    by (rule follow_connect_try)
  with t have "buttons_follow (connect_begin w) v" by simp
  with s have v: "buttons_follow w v" by (rule follow_trans)
  show ?thesis
  proof (cases e)
    case None
    with False t have "connect env w = v" by (simp add: connect_def)
    with v show ?thesis by simp
  next
    case (Some err)
    with False t have "connect env w = connect_catch err v" by (simp add: connect_def)
    with follow_trans [OF v follow_connect_catch [of v err]] show ?thesis by simp
  qed
qed

lemma follow_disconnect: "buttons_follow w (disconnect env w)"
proof (cases "\<not> isConnected w \<and> roomSession w = None")
  case True
  then show ?thesis by (simp add: disconnect_def follow_logEvent)
next
  case False
  then have "\<exists>v. disconnect env w = handleDisconnect v"
    by (auto simp: disconnect_def Let_def split: prod.splits option.splits)
  then show ?thesis by (auto simp: buttons_follow_def reflect_handleDisconnect)
qed

lemma follow_changed:
  "buttons_follow w w' \<Longrightarrow> isConnected w' \<noteq> isConnected w \<Longrightarrow> buttons_reflect w'"
  by (auto simp: buttons_follow_def)

lemma follow_kept: "buttons_follow w w' \<Longrightarrow> buttons_reflect w \<Longrightarrow> buttons_reflect w'"
  by (auto simp: buttons_follow_def buttons_reflect_def)

text \<open>
  C9, as the specification states it, fails when the state is the one shown in the status
  element: while \<open>disconnect\<close> awaits \<open>hangup\<close> on a connected page, the status is
  \<open>disconnecting\<close>, not \<open>connected\<close>, and the connect button is still disabled and the
  disconnect button still enabled, because the flag is cleared only by the teardown.
\<close>

theorem buttons_while_disconnecting_counterexample:
  "status_className joined_page = ''status connected'' \<and>
   status_className (disconnecting joined_page) = ''status disconnecting'' \<and>
   connectBtn_disabled (disconnecting joined_page) \<and>
   \<not> disconnectBtn_disabled (disconnecting joined_page)"
  by code_simp

text \<open>
  C9, amended. The buttons are a projection of the \<open>isConnected\<close> flag: \<open>updateButtons\<close>
  enables connect exactly when the flag is false and disconnect exactly when it is true.
  Whenever a run of \<open>connect\<close>, of \<open>disconnect\<close> or of a callback changes the flag, the
  buttons reflect it afterwards, and buttons that reflect the flag before such a run
  reflect it after.
\<close>

theorem buttons_follow_connection:
  "(\<not> connectBtn_disabled (updateButtons w)) = (\<not> isConnected (updateButtons w)) \<and>
   (\<not> disconnectBtn_disabled (updateButtons w)) = isConnected (updateButtons w) \<and>
   isConnected (updateButtons w) = isConnected w \<and>
   (isConnected (connect env w) \<noteq> isConnected w \<longrightarrow> buttons_reflect (connect env w)) \<and>
   (isConnected (disconnect env w) \<noteq> isConnected w \<longrightarrow> buttons_reflect (disconnect env w)) \<and>
   (isConnected (dispatch n w) \<noteq> isConnected w \<longrightarrow> buttons_reflect (dispatch n w)) \<and>
   (buttons_reflect w \<longrightarrow>
      buttons_reflect (connect env w) \<and> buttons_reflect (disconnect env w) \<and>
      buttons_reflect (dispatch n w))"
proof -
  have u: "(\<not> connectBtn_disabled (updateButtons w)) = (\<not> isConnected (updateButtons w)) \<and>
           (\<not> disconnectBtn_disabled (updateButtons w)) = isConnected (updateButtons w) \<and>
           isConnected (updateButtons w) = isConnected w"
    by (simp add: updateButtons_def)
  show ?thesis
    using u follow_changed [OF follow_connect [of w env]]
      follow_changed [OF follow_disconnect [of w env]]
      follow_changed [OF follow_dispatch [of w n]]
      follow_kept [OF follow_connect [of w env]]
      follow_kept [OF follow_disconnect [of w env]]
      follow_kept [OF follow_dispatch [of w n]]
    by blast
qed

theorem buttons_follow_connection_witness:
  "isConnected joined_page \<and>
   connectBtn_disabled joined_page \<and>
   \<not> disconnectBtn_disabled joined_page"
proof -
  note j = joined_page_connected
  from j fresh_page_not_connected
  have "isConnected (connect agent_joins fresh_page) \<noteq> isConnected fresh_page"
    by (simp add: joined_page_def)
  with buttons_follow_connection [of fresh_page agent_joins]
  have "buttons_reflect (connect agent_joins fresh_page)" by blast
  with j show ?thesis by (simp add: buttons_reflect_def joined_page_def)
qed

end
